theory Spec2Isabelle
  imports Main
begin

section \<open>Stream manager service (scripts/start.py)\<close>

text \<open>
  A shallow embedding of the stream manager: the stream configuration, the FFmpeg command
  builder, the life cycle of one FFmpeg process (start, stop, liveness) and the manager
  that starts, monitors and cleans up the tracked processes.

  Conventions of the embedding.
  \<^item> Python exceptions are values of type \<open>exn\<close>; a call that may raise returns a
    sum (\<open>Inl\<close> the exception) or, when the object it mutates has to be observed after
    the raise, the state together with an \<open>exn option\<close>.
  \<^item> A \<open>subprocess.Popen\<close> object is identified with a number (its pid). What the
    operating system answers when a child is spawned, polled, signalled or waited for is
    not decided by the program; it is a parameter of each operation.
  \<^item> Strings are lists of characters. \<open>str.upper\<close> is a built-in of the language, not
    code of this program: the operations that call it take it as the parameter \<open>upper\<close>,
    and what is proved about them holds for every such function.
  \<^item> A parsed stream entry holds strings where the keys are present; the values of an
    \<open>options\<close> mapping are given by their \<open>str()\<close> rendering.
\<close>

subsection \<open>Exceptions\<close>

datatype exn =
    ValueError string
  | KeyError string
  | OSError string
  | TimeoutExpired

subsection \<open>Stream types and stream configuration\<close>

datatype stream_type = FILE | RTSP | RTMP | HLS | UDP

text \<open>\<open>str()\<close> of an enum member, as it appears in the error message of the builder.\<close>

fun str_stream_type :: "stream_type \<Rightarrow> string" where
  "str_stream_type FILE = ''StreamType.FILE''"
| "str_stream_type RTSP = ''StreamType.RTSP''"
| "str_stream_type RTMP = ''StreamType.RTMP''"
| "str_stream_type HLS = ''StreamType.HLS''"
| "str_stream_type UDP = ''StreamType.UDP''"

text \<open>\<open>StreamType[key]\<close>: lookup of a member by name, \<open>KeyError\<close> for an unknown name.\<close>

definition stream_type_getitem :: "string \<Rightarrow> exn + stream_type" where
  "stream_type_getitem key =
     (if key = ''FILE'' then Inr FILE
      else if key = ''RTSP'' then Inr RTSP
      else if key = ''RTMP'' then Inr RTMP
      else if key = ''HLS'' then Inr HLS
      else if key = ''UDP'' then Inr UDP
      else Inl (KeyError key))"

record stream_config =
  name :: string
  type :: stream_type
  input :: string
  output_path :: string
  options :: "(string \<times> string) list option"

subsection \<open>One FFmpeg process\<close>

type_synonym popen = nat

record ffmpeg_process =
  config :: stream_config
  rtsp_server :: string
  process :: "popen option"
  last_restart :: int
  max_restarts :: int
  restart_count :: int
  restart_interval :: int

text \<open>\<open>FFmpegProcess.__init__\<close>.\<close>

definition ffmpeg_process_init :: "stream_config \<Rightarrow> string \<Rightarrow> ffmpeg_process" where
  "ffmpeg_process_init cfg server =
     \<lparr> config = cfg, rtsp_server = server, process = None, last_restart = 0,
       max_restarts = 5, restart_count = 0, restart_interval = 60 \<rparr>"

subsubsection \<open>The command builder\<close>

text \<open>The arguments each stream type appends to \<open>['ffmpeg', '-re']\<close>.\<close>

definition file_transcode_args :: "string list" where
  "file_transcode_args =
     [''-c:v'', ''libx264'', ''-preset'', ''veryfast'', ''-c:a'', ''aac'',
      ''-b:v'', ''2M'', ''-bufsize'', ''4M'', ''-maxrate'', ''2.5M'',
      ''-g'', ''50'', ''-keyint_min'', ''25'']"

definition type_args :: "stream_type \<Rightarrow> string \<Rightarrow> exn + string list" where
  "type_args t inp =
     (if t = FILE then
        Inr ([''-stream_loop'', ''-1'', ''-i'', inp] @ file_transcode_args)
      else if t = RTSP then
        Inr [''-rtsp_transport'', ''tcp'', ''-i'', inp, ''-c'', ''copy'',
             ''-f'', ''rtsp'', ''-rtsp_transport'', ''tcp'']
      else if t = RTMP then
        Inr [''-i'', inp, ''-c'', ''copy'']
      else
        Inl (ValueError (''Unsupported stream type: '' @ str_stream_type t)))"

text \<open>
  The loop over \<open>options.items()\<close>; it runs only when the mapping is truthy, that is neither
  \<open>None\<close> nor empty.
\<close>

fun option_pairs :: "(string \<times> string) list \<Rightarrow> string list" where
  "option_pairs [] = []"
| "option_pairs ((key, val) # kvs) = [''-'' @ key, val] @ option_pairs kvs"

definition option_args :: "(string \<times> string) list option \<Rightarrow> string list" where
  "option_args opts =
     (case opts of
        None \<Rightarrow> []
      | Some kvs \<Rightarrow> if kvs = [] then [] else option_pairs kvs)"

definition output_args :: "string \<Rightarrow> string \<Rightarrow> string list" where
  "output_args server path = [''-f'', ''rtsp'', server @ ''/'' @ path]"

definition build_command :: "ffmpeg_process \<Rightarrow> exn + string list" where
  "build_command self =
     (let base_command = [''ffmpeg'', ''-re''] in
      case type_args (type (config self)) (input (config self)) of
        Inl e \<Rightarrow> Inl e
      | Inr targs \<Rightarrow>
          Inr (base_command @ targs @ option_args (options (config self))
               @ output_args (rtsp_server self) (output_path (config self))))"

subsubsection \<open>start, stop and the liveness probe\<close>

text \<open>
  \<open>start()\<close>. The parameter \<open>popen_call\<close> is what \<open>subprocess.Popen(command, ...)\<close>
  does in the current environment: it returns the new process or raises. Every
  \<open>Exception\<close> raised while building the command or spawning is caught, logged and
  turned into the result \<open>False\<close>; the assignment to \<open>self.process\<close> is reached only
  when the spawn returned.
\<close>

definition start :: "(string list \<Rightarrow> exn + popen) \<Rightarrow> ffmpeg_process \<Rightarrow> ffmpeg_process \<times> bool" where
  "start popen_call self =
     (case build_command self of
        Inl e \<Rightarrow> (self, False)
      | Inr command \<Rightarrow>
          (case popen_call command of
             Inl e \<Rightarrow> (self, False)
           | Inr p \<Rightarrow> (self\<lparr>process := Some p\<rparr>, True)))"

text \<open>
  What the operating system answers during one \<open>stop()\<close>: \<open>None\<close> when the call returns,
  \<open>Some e\<close> when it raises \<open>e\<close>. \<open>terminate()\<close> and \<open>kill()\<close> send a signal and can fail
  with an \<open>OSError\<close>; \<open>wait(timeout=5)\<close> raises \<open>TimeoutExpired\<close> when the child has not
  exited in time.
\<close>

record stop_env =
  terminate_result :: "exn option"
  wait_result :: "exn option"
  kill_result :: "exn option"

text \<open>
  \<open>stop()\<close>. Only \<open>TimeoutExpired\<close> is caught, and only around \<open>wait\<close>; the assignment
  \<open>self.process = None\<close> is the last statement of the \<open>if\<close> block and is not protected
  by a \<open>finally\<close>. The result is the object after the call and the exception that left
  the call, if any.
\<close>

definition stop :: "stop_env \<Rightarrow> ffmpeg_process \<Rightarrow> ffmpeg_process \<times> exn option" where
  "stop env self =
     (case process self of
        None \<Rightarrow> (self, None)
      | Some p \<Rightarrow>
          (case terminate_result env of
             Some e \<Rightarrow> (self, Some e)
           | None \<Rightarrow>
               (case wait_result env of
                  None \<Rightarrow> (self\<lparr>process := None\<rparr>, None)
                | Some e \<Rightarrow>
                    if e = TimeoutExpired then
                      (case kill_result env of
                         Some e' \<Rightarrow> (self, Some e')
                       | None \<Rightarrow> (self\<lparr>process := None\<rparr>, None))
                    else (self, Some e))))"

text \<open>
  \<open>is_alive()\<close>: \<open>self.process is not None and self.process.poll() is None\<close>. The
  parameter \<open>running p\<close> says whether \<open>poll()\<close> of process \<open>p\<close> returns \<open>None\<close> now.
\<close>

definition is_alive :: "(popen \<Rightarrow> bool) \<Rightarrow> ffmpeg_process \<Rightarrow> bool" where
  "is_alive running self =
     (case process self of None \<Rightarrow> False | Some p \<Rightarrow> running p)"

subsection \<open>The stream manager\<close>

text \<open>
  \<open>self.streams\<close> is a dictionary from stream names to process objects. Python dictionaries
  keep insertion order, and assigning to a key that is present replaces the value in place.
\<close>

type_synonym streams = "(string \<times> ffmpeg_process) list"

fun dict_set :: "('k \<times> 'v) list \<Rightarrow> 'k \<Rightarrow> 'v \<Rightarrow> ('k \<times> 'v) list" where
  "dict_set [] k v = [(k, v)]"
| "dict_set ((k', v') # kvs) k v =
     (if k' = k then (k, v) # kvs else (k', v') # dict_set kvs k v)"

text \<open>
  The calls the manager makes on its process objects and the messages it logs, in the
  order they happen.
\<close>

datatype event =
    StartCall string
  | StopCall string
  | DiedWarning string
  | GaveUpError string

subsubsection \<open>start_all_streams\<close>

text \<open>
  One entry of \<open>config['streams']\<close> as the YAML loader delivers it: a mapping in which each
  of the keys may be missing (\<open>None\<close>).
\<close>

record stream_entry =
  entry_name :: "string option"
  entry_type :: "string option"
  entry_input :: "string option"
  entry_output_path :: "string option"
  entry_options :: "(string \<times> string) list option"

text \<open>
  The construction of the \<open>StreamConfig\<close>: the keyword arguments are evaluated in the order
  they are written, a missing key raises \<open>KeyError\<close>, and so does a type name that is not a
  member of the enumeration. \<open>get('options')\<close> does not raise. \<open>upper\<close> is
  \<open>str.upper\<close>.
\<close>

definition make_stream_config :: "(string \<Rightarrow> string) \<Rightarrow> stream_entry \<Rightarrow> exn + stream_config" where
  "make_stream_config upper sc =
     (case entry_name sc of
        None \<Rightarrow> Inl (KeyError ''name'')
      | Some n \<Rightarrow>
     (case entry_type sc of
        None \<Rightarrow> Inl (KeyError ''type'')
      | Some t \<Rightarrow>
     (case stream_type_getitem (upper t) of
        Inl e \<Rightarrow> Inl e
      | Inr ty \<Rightarrow>
     (case entry_input sc of
        None \<Rightarrow> Inl (KeyError ''input'')
      | Some i \<Rightarrow>
     (case entry_output_path sc of
        None \<Rightarrow> Inl (KeyError ''output_path'')
      | Some out \<Rightarrow>
          Inr \<lparr> name = n, type = ty, input = i, output_path = out,
                options = entry_options sc \<rparr>)))))"

text \<open>
  The loop of \<open>start_all_streams\<close>, from entry number \<open>i\<close> on. \<open>spawn i\<close> is what
  \<open>subprocess.Popen\<close> does for the \<open>i\<close>-th entry. The process object is stored only when
  \<open>start()\<close> returned \<open>True\<close>. The handler of the \<open>try\<close> block formats
  \<open>stream_config['name']\<close> into its message, so for an entry without a name the handler
  itself raises \<open>KeyError\<close> and the exception leaves the loop.
\<close>

fun start_all_loop ::
  "(string \<Rightarrow> string) \<Rightarrow> (nat \<Rightarrow> string list \<Rightarrow> exn + popen) \<Rightarrow> string \<Rightarrow> nat
     \<Rightarrow> stream_entry list \<Rightarrow> streams \<Rightarrow> streams \<times> exn option" where
  "start_all_loop upper spawn server i [] strs = (strs, None)"
| "start_all_loop upper spawn server i (sc # rest) strs =
     (case make_stream_config upper sc of
        Inr stream \<Rightarrow>
          (case start (spawn i) (ffmpeg_process_init stream server) of
             (proc, ok) \<Rightarrow>
               start_all_loop upper spawn server (Suc i) rest
                 (if ok then dict_set strs (name stream) proc else strs))
      | Inl e \<Rightarrow>
          (case entry_name sc of
             None \<Rightarrow> (strs, Some (KeyError ''name''))
           | Some n \<Rightarrow> start_all_loop upper spawn server (Suc i) rest strs))"

text \<open>\<open>start_all_streams\<close> on a freshly constructed manager, whose dictionary is empty.\<close>

definition start_all_streams ::
  "(string \<Rightarrow> string) \<Rightarrow> (nat \<Rightarrow> string list \<Rightarrow> exn + popen) \<Rightarrow> string \<Rightarrow> stream_entry list
     \<Rightarrow> streams \<times> exn option" where
  "start_all_streams upper spawn server entries = start_all_loop upper spawn server 0 entries []"

subsubsection \<open>monitor_streams\<close>

text \<open>What the operating system answers for one stream during one pass of the monitor.\<close>

record tick_env =
  tick_running :: "popen \<Rightarrow> bool"
  tick_popen :: "string list \<Rightarrow> exn + popen"

text \<open>The body of the \<open>for\<close> loop of \<open>monitor_streams\<close> for one item of the dictionary.\<close>

definition monitor_one :: "tick_env \<Rightarrow> string \<Rightarrow> ffmpeg_process \<Rightarrow> ffmpeg_process \<times> event list" where
  "monitor_one env nm proc =
     (if \<not> is_alive (tick_running env) proc then
        (if restart_count proc < max_restarts proc then
           (fst (start (tick_popen env) (proc\<lparr>restart_count := restart_count proc + 1\<rparr>)),
            [DiedWarning nm, StartCall nm])
         else (proc, [DiedWarning nm, GaveUpError nm]))
      else (proc, []))"

text \<open>One pass of the \<open>for\<close> loop over \<open>self.streams.items()\<close>.\<close>

fun monitor_tick :: "(string \<Rightarrow> tick_env) \<Rightarrow> streams \<Rightarrow> streams \<times> event list" where
  "monitor_tick env [] = ([], [])"
| "monitor_tick env ((nm, proc) # rest) =
     (case monitor_one (env nm) nm proc of
        (proc', evs) \<Rightarrow>
          (case monitor_tick env rest of
             (rest', evs') \<Rightarrow> ((nm, proc') # rest', evs @ evs')))"

text \<open>
  \<open>while True\<close> never ends; the passes it makes are modelled by the list of the
  environments they meet, so a list of length \<open>n\<close> gives the state and the events after the
  first \<open>n\<close> passes.
\<close>

fun monitor_streams :: "(string \<Rightarrow> tick_env) list \<Rightarrow> streams \<Rightarrow> streams \<times> event list" where
  "monitor_streams [] strs = (strs, [])"
| "monitor_streams (env # envs) strs =
     (case monitor_tick env strs of
        (strs', evs) \<Rightarrow>
          (case monitor_streams envs strs' of
             (strs'', evs') \<Rightarrow> (strs'', evs @ evs')))"

subsubsection \<open>cleanup and the signal handler\<close>

text \<open>
  \<open>cleanup()\<close>: the loop over \<open>self.streams.values()\<close> calls \<open>stop()\<close> with no \<open>try\<close>
  around it, so an exception that leaves one \<open>stop()\<close> leaves the loop.
\<close>

fun cleanup :: "(string \<Rightarrow> stop_env) \<Rightarrow> streams \<Rightarrow> streams \<times> event list \<times> exn option" where
  "cleanup env [] = ([], [], None)"
| "cleanup env ((nm, proc) # rest) =
     (case stop (env nm) proc of
        (proc', Some e) \<Rightarrow> ((nm, proc') # rest, [StopCall nm], Some e)
      | (proc', None) \<Rightarrow>
          (case cleanup env rest of
             (rest', evs, r) \<Rightarrow> ((nm, proc') # rest', StopCall nm # evs, r)))"

text \<open>How a call ends that does not return: with \<open>sys.exit(code)\<close> or with an exception.\<close>

datatype ending = SystemExit int | Raised exn

definition signal_handler :: "(string \<Rightarrow> stop_env) \<Rightarrow> streams \<Rightarrow> streams \<times> event list \<times> ending" where
  "signal_handler env strs =
     (case cleanup env strs of
        (strs', evs, None) \<Rightarrow> (strs', evs, SystemExit 0)
      | (strs', evs, Some e) \<Rightarrow> (strs', evs, Raised e))"

subsection \<open>Example inputs\<close>

text \<open>
  Two stream configurations, the default server address, a process object that holds a
  process, and some answers of the operating system: a spawn that fails (no \<open>ffmpeg\<close>
  executable), a spawn that succeeds, a signal that cannot be delivered, a child that exits
  within the grace period, one that has to be killed, and one that outlives the grace period
  and cannot be killed.
\<close>

definition cam1_config :: stream_config where
  "cam1_config =
     \<lparr> name = ''cam1'', type = FILE, input = ''/media/loop.mp4'',
       output_path = ''cam1/stream'', options = None \<rparr>"

definition cam2_config :: stream_config where
  "cam2_config =
     \<lparr> name = ''cam2'', type = RTSP, input = ''rtsp://10.0.0.2/live'',
       output_path = ''cam2/stream'', options = Some [(''an'', ''1'')] \<rparr>"

definition server :: string where
  "server = ''rtsp://mediamtx:8554''"

definition running_process :: "stream_config \<Rightarrow> popen \<Rightarrow> ffmpeg_process" where
  "running_process cfg p = (ffmpeg_process_init cfg server)\<lparr>process := Some p\<rparr>"

definition popen_fails :: "string list \<Rightarrow> exn + popen" where
  "popen_fails command = Inl (OSError ''No such file or directory: ffmpeg'')"

definition popen_ok :: "popen \<Rightarrow> string list \<Rightarrow> exn + popen" where
  "popen_ok p command = Inr p"

definition signal_fails :: stop_env where
  "signal_fails =
     \<lparr> terminate_result = Some (OSError ''Operation not permitted''),
       wait_result = None, kill_result = None \<rparr>"

definition exits_in_time :: stop_env where
  "exits_in_time = \<lparr> terminate_result = None, wait_result = None, kill_result = None \<rparr>"

definition kill_fails :: stop_env where
  "kill_fails =
     \<lparr> terminate_result = None, wait_result = Some TimeoutExpired,
       kill_result = Some (OSError ''Operation not permitted'') \<rparr>"

definition needs_kill :: stop_env where
  "needs_kill =
     \<lparr> terminate_result = None, wait_result = Some TimeoutExpired, kill_result = None \<rparr>"

text \<open>
  Entries of the configuration file, answers to the spawns of \<open>start_all_streams\<close> (by
  entry number), answers during one pass of the monitor and during \<open>cleanup\<close> (by stream
  name), and a dictionary that tracks two running streams.
\<close>

text \<open>
  \<open>str.upper\<close> on strings of ASCII characters: the lower-case letters are replaced, every
  other character is kept. The type names of the example entries are ASCII.
\<close>

definition ascii_upper_char :: "char \<Rightarrow> char" where
  "ascii_upper_char c =
     (case map_of (zip ''abcdefghijklmnopqrstuvwxyz'' ''ABCDEFGHIJKLMNOPQRSTUVWXYZ'') c of
        Some u \<Rightarrow> u
      | None \<Rightarrow> c)"

definition ascii_upper :: "string \<Rightarrow> string" where
  "ascii_upper s = map ascii_upper_char s"

definition cam1_entry :: stream_entry where
  "cam1_entry =
     \<lparr> entry_name = Some ''cam1'', entry_type = Some ''file'',
       entry_input = Some ''/media/loop.mp4'', entry_output_path = Some ''cam1/stream'',
       entry_options = None \<rparr>"

definition cam2_entry :: stream_entry where
  "cam2_entry =
     \<lparr> entry_name = Some ''cam2'', entry_type = Some ''rtsp'',
       entry_input = Some ''rtsp://10.0.0.2/live'', entry_output_path = Some ''cam2/stream'',
       entry_options = Some [(''an'', ''1'')] \<rparr>"

definition never_spawns :: "nat \<Rightarrow> string list \<Rightarrow> exn + popen" where
  "never_spawns i = popen_fails"

definition spawns_second_only :: "nat \<Rightarrow> string list \<Rightarrow> exn + popen" where
  "spawns_second_only i = (if i = 1 then popen_ok 42 else popen_fails)"

definition always_spawns :: "nat \<Rightarrow> string list \<Rightarrow> exn + popen" where
  "always_spawns i = popen_ok (40 + i)"

definition two_running :: streams where
  "two_running =
     [(''cam1'', running_process cam1_config 7), (''cam2'', running_process cam2_config 8)]"

definition first_signal_fails :: "string \<Rightarrow> stop_env" where
  "first_signal_fails nm = (if nm = ''cam1'' then signal_fails else exits_in_time)"

definition first_needs_kill :: "string \<Rightarrow> stop_env" where
  "first_needs_kill nm = (if nm = ''cam1'' then needs_kill else exits_in_time)"

definition dead_no_ffmpeg :: "string \<Rightarrow> tick_env" where
  "dead_no_ffmpeg nm = \<lparr> tick_running = (\<lambda>p. False), tick_popen = popen_fails \<rparr>"

definition cam1_dead_cam2_alive :: "string \<Rightarrow> tick_env" where
  "cam1_dead_cam2_alive nm =
     \<lparr> tick_running = (\<lambda>p. nm = ''cam2''), tick_popen = popen_ok 43 \<rparr>"

definition six_dead_ticks :: "(string \<Rightarrow> tick_env) list" where
  "six_dead_ticks =
     [dead_no_ffmpeg, dead_no_ffmpeg, dead_no_ffmpeg, dead_no_ffmpeg, dead_no_ffmpeg,
      dead_no_ffmpeg]"

definition second_signal_fails :: "string \<Rightarrow> stop_env" where
  "second_signal_fails nm = (if nm = ''cam2'' then signal_fails else needs_kill)"

section \<open>The command builder\<close>

lemma option_args_concat:
  "option_args opts =
     concat (map (\<lambda>(k, v). [''-'' @ k, v]) (case opts of None \<Rightarrow> [] | Some kvs \<Rightarrow> kvs))"
proof -
  have "option_pairs kvs = concat (map (\<lambda>(k, v). [''-'' @ k, v]) kvs)" for kvs
    by (induction kvs rule: option_pairs.induct) simp_all
  then show ?thesis
    by (simp add: option_args_def split: option.split)
qed

text \<open>
  C5. For a stream of type \<open>file\<close> the command is \<open>ffmpeg -re\<close>, then the contiguous
  arguments \<open>-stream_loop -1 -i <input>\<close>, then the transcode arguments, then the option
  pairs, and it ends with \<open>-f rtsp <base>/<output_path>\<close>. In particular, for the stream
  \<open>cam1\<close> with input \<open>/media/loop.mp4\<close> and output path \<open>cam1/stream\<close>, the command
  contains \<open>-stream_loop -1 -i /media/loop.mp4\<close> and ends with
  \<open>-f rtsp <base>/cam1/stream\<close>, for every base address and every options mapping.
\<close>

theorem build_command_file:
  "(type (config self) = FILE \<longrightarrow>
      build_command self =
        Inr ([''ffmpeg'', ''-re'']
             @ [''-stream_loop'', ''-1'', ''-i'', input (config self)]
             @ [''-c:v'', ''libx264'', ''-preset'', ''veryfast'', ''-c:a'', ''aac'',
                ''-b:v'', ''2M'', ''-bufsize'', ''4M'', ''-maxrate'', ''2.5M'',
                ''-g'', ''50'', ''-keyint_min'', ''25'']
             @ option_args (options (config self))
             @ [''-f'', ''rtsp'', rtsp_server self @ ''/'' @ output_path (config self)]))
   \<and> (\<exists>middle.
        build_command
          (ffmpeg_process_init
             \<lparr> name = ''cam1'', type = FILE, input = ''/media/loop.mp4'',
               output_path = ''cam1/stream'', options = opts \<rparr> base) =
        Inr ([''ffmpeg'', ''-re'', ''-stream_loop'', ''-1'', ''-i'', ''/media/loop.mp4'']
             @ middle @ [''-f'', ''rtsp'', base @ ''/cam1/stream'']))"
  by (simp add: build_command_def type_args_def file_transcode_args_def output_args_def
        ffmpeg_process_init_def)

theorem build_command_file_witness:
  "type (config (ffmpeg_process_init
       \<lparr> name = ''cam1'', type = FILE, input = ''/media/loop.mp4'',
         output_path = ''cam1/stream'', options = Some [(''r'', ''25'')] \<rparr>
       ''rtsp://mediamtx:8554'')) = FILE
   \<and> build_command (ffmpeg_process_init
       \<lparr> name = ''cam1'', type = FILE, input = ''/media/loop.mp4'',
         output_path = ''cam1/stream'', options = Some [(''r'', ''25'')] \<rparr>
       ''rtsp://mediamtx:8554'') =
     Inr [''ffmpeg'', ''-re'', ''-stream_loop'', ''-1'', ''-i'', ''/media/loop.mp4'',
          ''-c:v'', ''libx264'', ''-preset'', ''veryfast'', ''-c:a'', ''aac'',
          ''-b:v'', ''2M'', ''-bufsize'', ''4M'', ''-maxrate'', ''2.5M'',
          ''-g'', ''50'', ''-keyint_min'', ''25'', ''-r'', ''25'',
          ''-f'', ''rtsp'', ''rtsp://mediamtx:8554/cam1/stream'']"
  using build_command_file [of "ffmpeg_process_init
       \<lparr> name = ''cam1'', type = FILE, input = ''/media/loop.mp4'',
         output_path = ''cam1/stream'', options = Some [(''r'', ''25'')] \<rparr>
       ''rtsp://mediamtx:8554''"]
  by (simp add: ffmpeg_process_init_def option_args_def)

text \<open>
  C6. For a stream of type \<open>hls\<close> or \<open>udp\<close> the builder produces no argument list: it
  raises the \<open>ValueError\<close> for an unsupported stream type. For \<open>file\<close>, \<open>rtsp\<close> and
  \<open>rtmp\<close> it raises nothing and returns an argument list.
\<close>

theorem build_command_unsupported:
  "(type (config self) \<in> {HLS, UDP} \<longrightarrow>
      build_command self =
        Inl (ValueError (''Unsupported stream type: '' @ str_stream_type (type (config self)))))
   \<and> (type (config self) \<in> {FILE, RTSP, RTMP} \<longrightarrow>
        (\<exists>command. build_command self = Inr command))"
  by (auto simp add: build_command_def type_args_def)

theorem build_command_unsupported_witness:
  "type (config (ffmpeg_process_init
       \<lparr> name = ''cam2'', type = HLS, input = ''http://host/live.m3u8'',
         output_path = ''cam2/stream'', options = None \<rparr> ''rtsp://mediamtx:8554'')) \<in> {HLS, UDP}
   \<and> build_command (ffmpeg_process_init
       \<lparr> name = ''cam2'', type = HLS, input = ''http://host/live.m3u8'',
         output_path = ''cam2/stream'', options = None \<rparr> ''rtsp://mediamtx:8554'') =
     Inl (ValueError ''Unsupported stream type: StreamType.HLS'')
   \<and> type (config (ffmpeg_process_init
       \<lparr> name = ''cam3'', type = RTMP, input = ''rtmp://host/live'',
         output_path = ''cam3/stream'', options = None \<rparr> ''rtsp://mediamtx:8554'')) \<in> {FILE, RTSP, RTMP}
   \<and> (\<exists>command. build_command (ffmpeg_process_init
       \<lparr> name = ''cam3'', type = RTMP, input = ''rtmp://host/live'',
         output_path = ''cam3/stream'', options = None \<rparr> ''rtsp://mediamtx:8554'') = Inr command)"
  using build_command_unsupported [of "ffmpeg_process_init
       \<lparr> name = ''cam2'', type = HLS, input = ''http://host/live.m3u8'',
         output_path = ''cam2/stream'', options = None \<rparr> ''rtsp://mediamtx:8554''"]
    build_command_unsupported [of "ffmpeg_process_init
       \<lparr> name = ''cam3'', type = RTMP, input = ''rtmp://host/live'',
         output_path = ''cam3/stream'', options = None \<rparr> ''rtsp://mediamtx:8554''"]
  by (simp add: ffmpeg_process_init_def)

text \<open>
  C7. For a stream of a supported type and any options mapping (absent, empty or not), the
  command consists of \<open>ffmpeg -re\<close>, the complete arguments of the stream type, then one
  pair \<open>-<key> <value>\<close> per option in the order of the mapping, and finally the output
  sink \<open>-f rtsp <server>/<output_path>\<close>: the last two arguments are the muxer \<open>rtsp\<close>
  and the output address, directly after \<open>-f\<close>.
\<close>

theorem build_command_options_placement:
  "type (config self) \<in> {FILE, RTSP, RTMP} \<longrightarrow>
     build_command self =
       Inr ([''ffmpeg'', ''-re'']
            @ (case type (config self) of
                 FILE \<Rightarrow>
                   [''-stream_loop'', ''-1'', ''-i'', input (config self),
                    ''-c:v'', ''libx264'', ''-preset'', ''veryfast'', ''-c:a'', ''aac'',
                    ''-b:v'', ''2M'', ''-bufsize'', ''4M'', ''-maxrate'', ''2.5M'',
                    ''-g'', ''50'', ''-keyint_min'', ''25'']
               | RTSP \<Rightarrow>
                   [''-rtsp_transport'', ''tcp'', ''-i'', input (config self), ''-c'', ''copy'',
                    ''-f'', ''rtsp'', ''-rtsp_transport'', ''tcp'']
               | _ \<Rightarrow> [''-i'', input (config self), ''-c'', ''copy''])
            @ concat (map (\<lambda>(key, val). [''-'' @ key, val])
                        (case options (config self) of None \<Rightarrow> [] | Some kvs \<Rightarrow> kvs))
            @ [''-f'', ''rtsp'', rtsp_server self @ ''/'' @ output_path (config self)])"
  by (auto simp add: build_command_def type_args_def file_transcode_args_def output_args_def
        option_args_concat)

theorem build_command_options_placement_witness:
  "type (config (ffmpeg_process_init cam2_config server)) \<in> {FILE, RTSP, RTMP}
   \<and> build_command (ffmpeg_process_init cam2_config server) =
     Inr [''ffmpeg'', ''-re'', ''-rtsp_transport'', ''tcp'', ''-i'', ''rtsp://10.0.0.2/live'',
          ''-c'', ''copy'', ''-f'', ''rtsp'', ''-rtsp_transport'', ''tcp'',
          ''-an'', ''1'', ''-f'', ''rtsp'', ''rtsp://mediamtx:8554/cam2/stream'']"
  using build_command_options_placement [of "ffmpeg_process_init cam2_config server"]
  by (simp add: ffmpeg_process_init_def cam2_config_def server_def)

text \<open>
  C10. For a stream of a supported type (\<open>file\<close>, \<open>rtsp\<close> or \<open>rtmp\<close>) the command
  starts with the executable name \<open>ffmpeg\<close>, immediately followed by \<open>-re\<close>: real-time
  pacing of the input is applied to the \<open>rtsp\<close> and \<open>rtmp\<close> relays as well as to files.
\<close>

theorem build_command_realtime_prefix:
  "type (config self) \<in> {FILE, RTSP, RTMP} \<longrightarrow>
     (\<exists>rest. build_command self = Inr (''ffmpeg'' # ''-re'' # rest))"
  by (auto simp add: build_command_def type_args_def)

theorem build_command_realtime_prefix_witness:
  "type (config (ffmpeg_process_init cam2_config server)) \<in> {FILE, RTSP, RTMP}
   \<and> (\<exists>rest. build_command (ffmpeg_process_init cam2_config server) =
         Inr (''ffmpeg'' # ''-re'' # rest))"
  using build_command_realtime_prefix [of "ffmpeg_process_init cam2_config server"]
  by (simp add: ffmpeg_process_init_def cam2_config_def)

section \<open>One FFmpeg process\<close>

text \<open>
  C9, as stated: after a failed spawn, \<open>start()\<close> leaves the object without a process
  reference, also when it held the dead process of an earlier run. This fails: a process
  object that holds process 7 still holds it after a restart attempt whose spawn fails.
\<close>

theorem start_failed_restart_keeps_process:
  "start popen_fails (running_process cam1_config 7) = (running_process cam1_config 7, False)
   \<and> process (fst (start popen_fails (running_process cam1_config 7))) = Some 7"
  by (simp add: start_def popen_fails_def running_process_def ffmpeg_process_init_def
        cam1_config_def build_command_def type_args_def)

text \<open>
  C9, amended. When the command cannot be built or the spawn fails, \<open>start()\<close> returns
  \<open>False\<close> without raising and leaves the object as it was: the process reference is
  unchanged, so an object without a reference stays without one, an object that held a
  process keeps it, and \<open>is_alive()\<close> answers as before the call.
\<close>

theorem start_failure_leaves_process_unchanged:
  "(\<forall>command. build_command self = Inr command \<longrightarrow> (\<exists>e. spawn command = Inl e)) \<longrightarrow>
     start spawn self = (self, False)
     \<and> process (fst (start spawn self)) = process self
     \<and> (process self = None \<longrightarrow> process (fst (start spawn self)) = None)
     \<and> is_alive running (fst (start spawn self)) = is_alive running self"
  by (auto simp add: start_def split: sum.split)

theorem start_failure_leaves_process_unchanged_witness:
  "(\<exists>command e. build_command (ffmpeg_process_init cam1_config server) = Inr command
       \<and> popen_fails command = Inl e)
   \<and> start popen_fails (ffmpeg_process_init cam1_config server) =
       (ffmpeg_process_init cam1_config server, False)
   \<and> process (fst (start popen_fails (ffmpeg_process_init cam1_config server))) = None"
  using start_failure_leaves_process_unchanged
          [of "ffmpeg_process_init cam1_config server" popen_fails]
  by (simp add: popen_fails_def ffmpeg_process_init_def cam1_config_def build_command_def
        type_args_def)

text \<open>
  C8, as stated: after any \<open>stop()\<close> call the object holds no process reference and no
  error is produced. This fails when \<open>terminate()\<close> raises: the exception leaves
  \<open>stop()\<close> before \<open>self.process = None\<close>, and the reference stays.
\<close>

theorem stop_raises_keeps_process:
  "stop signal_fails (running_process cam1_config 7) =
     (running_process cam1_config 7, Some (OSError ''Operation not permitted''))
   \<and> process (fst (stop signal_fails (running_process cam1_config 7))) = Some 7"
  by (simp add: stop_def signal_fails_def running_process_def)

text \<open>
  C8, amended. \<open>stop()\<close> on an object without a process reference is a no-op that
  raises nothing. A \<open>stop()\<close> in which \<open>terminate()\<close> does not raise and the child
  either exits within the grace period or, after the timeout, \<open>kill()\<close> does not raise,
  returns without error. Whenever \<open>stop()\<close> returns without error the object holds no
  process reference, \<open>is_alive()\<close> is false, and a second \<open>stop()\<close> right after it
  is a no-op without error, whatever the operating system would answer. On an object that
  holds a process reference, when \<open>terminate()\<close> raises, when \<open>wait()\<close> raises anything
  other than the timeout, or when \<open>kill()\<close> raises after the timeout, \<open>stop()\<close> ends
  with that exception and the object is as before the call: the reference is not cleared.
\<close>

theorem stop_idempotent_when_returning:
  "(process self = None \<longrightarrow> stop env self = (self, None))
   \<and> (terminate_result env = None
        \<and> (wait_result env = None
            \<or> wait_result env = Some TimeoutExpired \<and> kill_result env = None) \<longrightarrow>
        snd (stop env self) = None)
   \<and> (snd (stop env self) = None \<longrightarrow>
        process (fst (stop env self)) = None
        \<and> \<not> is_alive running (fst (stop env self))
        \<and> stop env' (fst (stop env self)) = (fst (stop env self), None))
   \<and> (process self \<noteq> None \<and> terminate_result env = Some e \<longrightarrow>
        stop env self = (self, Some e))
   \<and> (process self \<noteq> None \<and> terminate_result env = None \<and> wait_result env = Some e
        \<and> e \<noteq> TimeoutExpired \<longrightarrow>
        stop env self = (self, Some e))
   \<and> (process self \<noteq> None \<and> terminate_result env = None
        \<and> wait_result env = Some TimeoutExpired \<and> kill_result env = Some e \<longrightarrow>
        stop env self = (self, Some e))
   \<and> (snd (stop env self) = Some e \<longrightarrow>
        fst (stop env self) = self \<and> process (fst (stop env self)) \<noteq> None)"
  by (auto simp add: stop_def is_alive_def split: option.splits if_splits)

theorem stop_idempotent_when_returning_witness:
  "terminate_result needs_kill = None
   \<and> wait_result needs_kill = Some TimeoutExpired \<and> kill_result needs_kill = None
   \<and> snd (stop needs_kill (running_process cam1_config 7)) = None
   \<and> process (fst (stop needs_kill (running_process cam1_config 7))) = None
   \<and> stop needs_kill (fst (stop needs_kill (running_process cam1_config 7))) =
       (ffmpeg_process_init cam1_config server, None)
   \<and> process (running_process cam2_config 8) = Some 8
   \<and> stop kill_fails (running_process cam2_config 8) =
       (running_process cam2_config 8, Some (OSError ''Operation not permitted''))
   \<and> process (fst (stop kill_fails (running_process cam2_config 8))) = Some 8"
  using stop_idempotent_when_returning
          [of "running_process cam1_config 7" needs_kill "\<lambda>p. True" needs_kill
              "OSError ''Operation not permitted''"]
        stop_idempotent_when_returning
          [of "running_process cam2_config 8" kill_fails "\<lambda>p. True" needs_kill
              "OSError ''Operation not permitted''"]
  by (simp add: needs_kill_def kill_fails_def stop_def running_process_def
        ffmpeg_process_init_def)

section \<open>Starting the streams\<close>

lemma start_keeps_fields:
  "restart_count (fst (start spawn self)) = restart_count self"
  "max_restarts (fst (start spawn self)) = max_restarts self"
  "config (fst (start spawn self)) = config self"
  by (simp_all add: start_def split: sum.split)

lemma start_True_iff:
  "snd (start spawn self) \<longleftrightarrow>
     (\<exists>command p. build_command self = Inr command \<and> spawn command = Inr p)"
  by (auto simp add: start_def split: sum.split)

lemma start_True_process:
  "snd (start spawn self) \<Longrightarrow> process (fst (start spawn self)) \<noteq> None"
  by (auto simp add: start_def split: sum.splits)

lemma build_command_Inr_supported:
  "build_command self = Inr command \<Longrightarrow> type (config self) \<in> {FILE, RTSP, RTMP}"
  by (auto simp add: build_command_def type_args_def split: if_splits sum.splits)

lemma dict_set_keys: "fst ` set (dict_set kvs k v) = insert k (fst ` set kvs)"
  by (induction kvs k v rule: dict_set.induct) auto

lemma dict_set_subset: "set (dict_set kvs k v) \<subseteq> insert (k, v) (set kvs)"
  by (induction kvs k v rule: dict_set.induct) auto

lemma dict_set_distinct:
  "distinct (map fst kvs) \<Longrightarrow> distinct (map fst (dict_set kvs k v))"
  by (induction kvs k v rule: dict_set.induct) (auto simp add: dict_set_keys)

lemma start_all_loop_distinct:
  "distinct (map fst strs) \<Longrightarrow>
     distinct (map fst (fst (start_all_loop upper spawn srv i entries strs)))"
  by (induction entries arbitrary: i strs)
     (auto simp add: dict_set_distinct split: sum.split option.split prod.split)

lemma start_all_loop_invariant:
  assumes "\<And>cfg j. snd (start (spawn j) (ffmpeg_process_init cfg srv)) \<Longrightarrow>
             P (name cfg) (fst (start (spawn j) (ffmpeg_process_init cfg srv)))"
  shows "\<forall>(k, h) \<in> set strs. P k h \<Longrightarrow>
           \<forall>(k, h) \<in> set (fst (start_all_loop upper spawn srv i entries strs)). P k h"
proof (induction entries arbitrary: i strs)
  case Nil
  then show ?case by simp
next
  case (Cons sc rest)
  show ?case
  proof (cases "make_stream_config upper sc")
    case (Inl e)
    with Cons show ?thesis by (simp split: option.split)
  next
    case (Inr stream)
    obtain proc ok where st: "start (spawn i) (ffmpeg_process_init stream srv) = (proc, ok)"
      by (cases "start (spawn i) (ffmpeg_process_init stream srv)")
    show ?thesis
    proof (cases ok)
      case False
      with Inr st Cons show ?thesis by simp
    next
      case True
      with st assms [of i stream] have "P (name stream) proc" by simp
      with Cons.prems dict_set_subset [of strs "name stream" proc]
      have "\<forall>(k, h) \<in> set (dict_set strs (name stream) proc). P k h" by auto
      with Cons.IH Inr st True show ?thesis by simp
    qed
  qed
qed

lemma start_all_loop_keys:
  "\<forall>sc \<in> set entries. entry_name sc \<noteq> None \<Longrightarrow>
     snd (start_all_loop upper spawn srv i entries strs) = None \<and>
     fst ` set (fst (start_all_loop upper spawn srv i entries strs)) =
       fst ` set strs \<union>
       {name cfg | cfg j. j < length entries \<and> make_stream_config upper (entries ! j) = Inr cfg
                    \<and> snd (start (spawn (i + j)) (ffmpeg_process_init cfg srv))}"
proof (induction entries arbitrary: i strs)
  case Nil
  then show ?case by simp
next
  case (Cons sc rest)
  let ?S = "\<lambda>i es. {name cfg | cfg j. j < length es \<and> make_stream_config upper (es ! j) = Inr cfg
                    \<and> snd (start (spawn (i + j)) (ffmpeg_process_init cfg srv))}"
  have split: "?S i (sc # rest) =
      {name cfg | cfg. make_stream_config upper sc = Inr cfg
                    \<and> snd (start (spawn i) (ffmpeg_process_init cfg srv))} \<union> ?S (Suc i) rest"
    (is "?L = ?A \<union> ?B")
  proof (rule set_eqI, rule iffI)
    fix n assume "n \<in> ?L"
    then obtain cfg j where j: "j < length (sc # rest)" "make_stream_config upper ((sc # rest) ! j) = Inr cfg"
      "snd (start (spawn (i + j)) (ffmpeg_process_init cfg srv))" "n = name cfg" by blast
    show "n \<in> ?A \<union> ?B"
    proof (cases j)
      case 0
      with j show ?thesis by auto
    next
      case (Suc j')
      with j have "j' < length rest \<and> make_stream_config upper (rest ! j') = Inr cfg
         \<and> snd (start (spawn (Suc i + j')) (ffmpeg_process_init cfg srv))" by simp
      with j(4) show ?thesis by blast
    qed
  next
    fix n assume "n \<in> ?A \<union> ?B"
    then show "n \<in> ?L"
    proof
      assume "n \<in> ?A"
      then obtain cfg where "make_stream_config upper ((sc # rest) ! 0) = Inr cfg"
        "snd (start (spawn (i + 0)) (ffmpeg_process_init cfg srv))" "n = name cfg" by auto
      then show ?thesis by (intro CollectI exI [of _ cfg] exI [of _ "0::nat"]) simp
    next
      assume "n \<in> ?B"
      then obtain cfg j where "j < length rest" "make_stream_config upper (rest ! j) = Inr cfg"
        "snd (start (spawn (Suc i + j)) (ffmpeg_process_init cfg srv))" "n = name cfg" by blast
      then show ?thesis by (intro CollectI exI [of _ cfg] exI [of _ "Suc j"]) simp
    qed
  qed
  from Cons.prems have rest: "\<forall>sc \<in> set rest. entry_name sc \<noteq> None"
    and nm: "entry_name sc \<noteq> None" by simp_all
  have A_Inl: "?A = {}" if "make_stream_config upper sc = Inl e" for e
    using that by simp
  have A_Inr: "?A = (if snd (start (spawn i) (ffmpeg_process_init stream srv))
                     then {name stream} else {})"
    if "make_stream_config upper sc = Inr stream" for stream
    using that by auto
  show ?case
  proof (cases "make_stream_config upper sc")
    case (Inl e)
    from nm obtain n where n: "entry_name sc = Some n" by auto
    have eq: "start_all_loop upper spawn srv i (sc # rest) strs =
                start_all_loop upper spawn srv (Suc i) rest strs"
      using Inl n by simp
    show ?thesis
      unfolding eq split A_Inl [OF Inl]
      using Cons.IH [OF rest, of "Suc i" strs] by simp
  next
    case (Inr stream)
    obtain proc ok where st: "start (spawn i) (ffmpeg_process_init stream srv) = (proc, ok)"
      by (cases "start (spawn i) (ffmpeg_process_init stream srv)")
    show ?thesis
    proof (cases ok)
      case False
      have eq: "start_all_loop upper spawn srv i (sc # rest) strs =
                  start_all_loop upper spawn srv (Suc i) rest strs"
        using Inr st False by simp
      show ?thesis
        unfolding eq split A_Inr [OF Inr]
        using Cons.IH [OF rest, of "Suc i" strs] st False by simp
    next
      case True
      have eq: "start_all_loop upper spawn srv i (sc # rest) strs =
                  start_all_loop upper spawn srv (Suc i) rest (dict_set strs (name stream) proc)"
        using Inr st True by simp
      show ?thesis
        unfolding eq split A_Inr [OF Inr]
        using Cons.IH [OF rest, of "Suc i" "dict_set strs (name stream) proc"] st True
        by (simp add: dict_set_keys)
    qed
  qed
qed

text \<open>
  C1, as stated: after \<open>start_all_streams\<close> every well-formed declaration (name, supported
  type, input and output path present) has its process object in the tracking dictionary,
  also when its first \<open>start()\<close> failed. This fails: the entry \<open>cam1\<close> is well formed
  and of type \<open>file\<close> (\<open>'file'.upper()\<close> is \<open>'FILE'\<close>), its spawn fails, and the
  dictionary stays empty.
\<close>

theorem failed_start_not_tracked:
  "make_stream_config ascii_upper cam1_entry = Inr cam1_config
   \<and> type cam1_config \<in> {FILE, RTSP, RTMP}
   \<and> start_all_streams ascii_upper never_spawns server [cam1_entry] = ([], None)"
  by (simp add: make_stream_config_def cam1_entry_def cam1_config_def ascii_upper_def ascii_upper_char_def
        stream_type_getitem_def start_all_streams_def start_def build_command_def
        type_args_def never_spawns_def popen_fails_def ffmpeg_process_init_def)

text \<open>
  C1, amended. When every entry of the configuration has a name, \<open>start_all_streams\<close> ends
  without an exception, and the tracking dictionary holds exactly the names of the entries
  that are well formed (the upper-cased type name, whatever \<open>str.upper\<close> makes of it, is a
  member of the enumeration), have a supported type and whose \<open>start()\<close> succeeded (the
  command was built and the spawn returned a process). Every tracked object is stored under the name
  of its configuration, holds a process reference and has restart count 0 of at most 5. An
  entry whose first \<open>start()\<close> fails is not tracked.
\<close>

theorem start_all_streams_tracks_started:
  "(\<forall>sc \<in> set entries. entry_name sc \<noteq> None) \<longrightarrow>
     snd (start_all_streams upper spawn srv entries) = None
     \<and> distinct (map fst (fst (start_all_streams upper spawn srv entries)))
     \<and> (\<forall>n. n \<in> fst ` set (fst (start_all_streams upper spawn srv entries)) \<longleftrightarrow>
            (\<exists>i cfg command p.
               i < length entries \<and> make_stream_config upper (entries ! i) = Inr cfg \<and> name cfg = n
               \<and> type cfg \<in> {FILE, RTSP, RTMP}
               \<and> build_command (ffmpeg_process_init cfg srv) = Inr command
               \<and> spawn i command = Inr p))
     \<and> (\<forall>(n, proc) \<in> set (fst (start_all_streams upper spawn srv entries)).
            name (config proc) = n \<and> process proc \<noteq> None \<and> restart_count proc = 0
            \<and> max_restarts proc = 5)"
proof
  assume names: "\<forall>sc \<in> set entries. entry_name sc \<noteq> None"
  let ?strs = "fst (start_all_streams upper spawn srv entries)"
  from start_all_loop_keys [OF names, of upper spawn srv 0 "[]"]
  have no_exn: "snd (start_all_streams upper spawn srv entries) = None"
    and keys: "fst ` set ?strs =
      {name cfg | cfg j. j < length entries \<and> make_stream_config upper (entries ! j) = Inr cfg
                    \<and> snd (start (spawn j) (ffmpeg_process_init cfg srv))}"
    by (simp_all add: start_all_streams_def)
  have dist: "distinct (map fst ?strs)"
    using start_all_loop_distinct [of "[]" upper spawn srv 0 entries]
    by (simp add: start_all_streams_def)
  have tracked: "n \<in> fst ` set ?strs \<longleftrightarrow>
            (\<exists>i cfg command p.
               i < length entries \<and> make_stream_config upper (entries ! i) = Inr cfg \<and> name cfg = n
               \<and> type cfg \<in> {FILE, RTSP, RTMP}
               \<and> build_command (ffmpeg_process_init cfg srv) = Inr command
               \<and> spawn i command = Inr p)" (is "?L \<longleftrightarrow> ?R") for n
  proof
    assume ?L
    with keys obtain cfg j where j: "j < length entries" "make_stream_config upper (entries ! j) = Inr cfg"
      "snd (start (spawn j) (ffmpeg_process_init cfg srv))" "n = name cfg" by auto
    from j(3) obtain command p where c: "build_command (ffmpeg_process_init cfg srv) = Inr command"
      "spawn j command = Inr p" by (auto simp add: start_True_iff)
    from build_command_Inr_supported [OF c(1)] have "type cfg \<in> {FILE, RTSP, RTMP}"
      by (simp add: ffmpeg_process_init_def)
    with j c show ?R by blast
  next
    assume ?R
    then obtain i cfg command p where r: "i < length entries"
      "make_stream_config upper (entries ! i) = Inr cfg" "name cfg = n"
      "build_command (ffmpeg_process_init cfg srv) = Inr command" "spawn i command = Inr p"
      by blast
    then have "snd (start (spawn i) (ffmpeg_process_init cfg srv))"
      by (auto simp add: start_True_iff)
    with r have "n \<in> {name cfg | cfg j. j < length entries \<and> make_stream_config upper (entries ! j) = Inr cfg
                    \<and> snd (start (spawn j) (ffmpeg_process_init cfg srv))}" by blast
    with keys show ?L by simp
  qed
  have handles: "\<forall>(n, proc) \<in> set ?strs.
            name (config proc) = n \<and> process proc \<noteq> None \<and> restart_count proc = 0
            \<and> max_restarts proc = 5"
    unfolding start_all_streams_def
  proof (rule start_all_loop_invariant)
    fix cfg j
    assume "snd (start (spawn j) (ffmpeg_process_init cfg srv))"
    then show "name (config (fst (start (spawn j) (ffmpeg_process_init cfg srv)))) = name cfg
       \<and> process (fst (start (spawn j) (ffmpeg_process_init cfg srv))) \<noteq> None
       \<and> restart_count (fst (start (spawn j) (ffmpeg_process_init cfg srv))) = 0
       \<and> max_restarts (fst (start (spawn j) (ffmpeg_process_init cfg srv))) = 5"
      by (simp add: start_keeps_fields start_True_process) (simp add: ffmpeg_process_init_def)
  qed simp
  from no_exn dist tracked handles
  show "snd (start_all_streams upper spawn srv entries) = None
     \<and> distinct (map fst ?strs)
     \<and> (\<forall>n. n \<in> fst ` set ?strs \<longleftrightarrow>
            (\<exists>i cfg command p.
               i < length entries \<and> make_stream_config upper (entries ! i) = Inr cfg \<and> name cfg = n
               \<and> type cfg \<in> {FILE, RTSP, RTMP}
               \<and> build_command (ffmpeg_process_init cfg srv) = Inr command
               \<and> spawn i command = Inr p))
     \<and> (\<forall>(n, proc) \<in> set ?strs.
            name (config proc) = n \<and> process proc \<noteq> None \<and> restart_count proc = 0
            \<and> max_restarts proc = 5)"
    by blast
qed

theorem start_all_streams_tracks_started_witness:
  "start_all_streams ascii_upper spawns_second_only server [cam1_entry, cam2_entry] =
       ([(''cam2'', running_process cam2_config 42)], None)
   \<and> ''cam2'' \<in> fst ` set (fst (start_all_streams ascii_upper spawns_second_only server [cam1_entry, cam2_entry]))
   \<and> ''cam1'' \<notin> fst ` set (fst (start_all_streams ascii_upper spawns_second_only server [cam1_entry, cam2_entry]))"
  using start_all_streams_tracks_started [of "[cam1_entry, cam2_entry]" ascii_upper spawns_second_only server]
  by (simp add: make_stream_config_def cam1_entry_def cam2_entry_def cam2_config_def ascii_upper_def ascii_upper_char_def
        stream_type_getitem_def start_all_streams_def start_def build_command_def
        type_args_def spawns_second_only_def popen_fails_def popen_ok_def ffmpeg_process_init_def running_process_def server_def)

section \<open>The monitoring loop\<close>

lemma monitor_tick_map:
  "monitor_tick env strs =
     (map (\<lambda>(nm, proc). (nm, fst (monitor_one (env nm) nm proc))) strs,
      concat (map (\<lambda>(nm, proc). snd (monitor_one (env nm) nm proc)) strs))"
  by (induction strs) (auto split: prod.split)

lemma monitor_tick_Cons:
  "monitor_tick env ((nm, proc) # rest) =
     ((nm, fst (monitor_one (env nm) nm proc)) # fst (monitor_tick env rest),
      snd (monitor_one (env nm) nm proc) @ snd (monitor_tick env rest))"
  by (simp split: prod.split)

lemma monitor_streams_Cons:
  "monitor_streams (env # envs) strs =
     (fst (monitor_streams envs (fst (monitor_tick env strs))),
      snd (monitor_tick env strs) @ snd (monitor_streams envs (fst (monitor_tick env strs))))"
  by (simp split: prod.split)

lemma monitor_tick_keys: "map fst (fst (monitor_tick env strs)) = map fst strs"
  by (simp add: monitor_tick_map case_prod_unfold comp_def)

lemma monitor_tick_nth:
  "i < length strs \<Longrightarrow>
     fst (monitor_tick env strs) ! i =
       (fst (strs ! i), fst (monitor_one (env (fst (strs ! i))) (fst (strs ! i)) (snd (strs ! i))))"
  by (simp add: monitor_tick_map case_prod_unfold)

lemma monitor_one_bounded:
  "restart_count proc \<le> max_restarts proc \<Longrightarrow>
     restart_count (fst (monitor_one env nm proc)) \<le> max_restarts (fst (monitor_one env nm proc))"
  by (simp add: monitor_one_def start_keeps_fields)

lemma monitor_one_exhausted:
  "max_restarts proc \<le> restart_count proc \<Longrightarrow>
     fst (monitor_one env nm proc) = proc \<and> StartCall nm' \<notin> set (snd (monitor_one env nm proc))"
  by (simp add: monitor_one_def)

lemma monitor_tick_no_StartCall:
  "nm \<notin> fst ` set strs \<Longrightarrow> count_list (snd (monitor_tick env strs)) (StartCall nm) = 0"
proof (induction strs)
  case Nil
  then show ?case by simp
next
  case (Cons a strs)
  obtain k h where a: "a = (k, h)" by (cases a)
  with Cons.prems have "k \<noteq> nm" and "nm \<notin> fst ` set strs" by auto
  with Cons.IH a show ?case
    by (simp add: monitor_tick_Cons monitor_one_def del: monitor_tick.simps)
qed

lemma monitor_tick_count_StartCall:
  "distinct (map fst strs) \<Longrightarrow> (nm, proc) \<in> set strs \<Longrightarrow>
     count_list (snd (monitor_tick env strs)) (StartCall nm) =
       count_list (snd (monitor_one (env nm) nm proc)) (StartCall nm)"
proof (induction strs)
  case Nil
  then show ?case by simp
next
  case (Cons a strs)
  obtain k h where a: "a = (k, h)" by (cases a)
  show ?case
  proof (cases "k = nm")
    case True
    with Cons.prems a have "h = proc" and "nm \<notin> fst ` set strs"
      by (auto simp add: rev_image_eqI)
    with True a monitor_tick_no_StartCall [of nm strs env] show ?thesis
      by (simp add: monitor_tick_Cons del: monitor_tick.simps)
  next
    case False
    with Cons.prems a have "(nm, proc) \<in> set strs" and "distinct (map fst strs)" by auto
    from Cons.IH [OF this(2) this(1)] False a
    show ?thesis
      by (simp add: monitor_tick_Cons monitor_one_def del: monitor_tick.simps)
  qed
qed

text \<open>The keys and the bounds of the tracking dictionary over any number of passes.\<close>

lemma monitor_streams_keys: "map fst (fst (monitor_streams envs strs)) = map fst strs"
  by (induction envs arbitrary: strs)
     (simp_all add: monitor_streams_Cons monitor_tick_keys del: monitor_streams.simps(2))

lemma monitor_tick_bounded:
  "\<forall>(nm, proc) \<in> set strs. restart_count proc \<le> max_restarts proc \<Longrightarrow>
     \<forall>(nm, proc) \<in> set (fst (monitor_tick env strs)). restart_count proc \<le> max_restarts proc"
  by (auto simp add: monitor_tick_map monitor_one_bounded)

lemma monitor_streams_bounded:
  "\<forall>(nm, proc) \<in> set strs. restart_count proc \<le> max_restarts proc \<Longrightarrow>
     \<forall>(nm, proc) \<in> set (fst (monitor_streams envs strs)). restart_count proc \<le> max_restarts proc"
proof (induction envs arbitrary: strs)
  case Nil
  then show ?case by simp
next
  case (Cons env envs)
  from Cons.IH [OF monitor_tick_bounded [OF Cons.prems, of env]]
  show ?case by (simp add: monitor_streams_Cons del: monitor_streams.simps(2))
qed

lemma monitor_tick_exhausted:
  assumes "distinct (map fst strs)" "i < length strs"
    "max_restarts (snd (strs ! i)) \<le> restart_count (snd (strs ! i))"
  shows "fst (monitor_tick env strs) ! i = strs ! i \<and>
         StartCall (fst (strs ! i)) \<notin> set (snd (monitor_tick env strs))"
proof -
  have in_set: "(fst (strs ! i), snd (strs ! i)) \<in> set strs"
    using assms(2) by simp
  have "count_list (snd (monitor_tick env strs)) (StartCall (fst (strs ! i))) = 0"
    using monitor_tick_count_StartCall [OF assms(1) in_set, of env]
      monitor_one_exhausted [OF assms(3), of "env (fst (strs ! i))" "fst (strs ! i)" "fst (strs ! i)"]
    by (simp add: count_list_0_iff)
  then show ?thesis
    using monitor_tick_nth [OF assms(2), of env] monitor_one_exhausted [OF assms(3)]
    by (simp add: count_list_0_iff)
qed

lemma monitor_streams_exhausted:
  "distinct (map fst strs) \<Longrightarrow> i < length strs \<Longrightarrow>
     max_restarts (snd (strs ! i)) \<le> restart_count (snd (strs ! i)) \<Longrightarrow>
     fst (monitor_streams envs strs) ! i = strs ! i \<and>
     StartCall (fst (strs ! i)) \<notin> set (snd (monitor_streams envs strs))"
proof (induction envs arbitrary: strs)
  case Nil
  then show ?case by simp
next
  case (Cons env envs)
  let ?strs' = "fst (monitor_tick env strs)"
  from monitor_tick_exhausted [OF Cons.prems, of env]
  have same: "?strs' ! i = strs ! i"
    and quiet: "StartCall (fst (strs ! i)) \<notin> set (snd (monitor_tick env strs))" by simp_all
  have d: "distinct (map fst ?strs')" using Cons.prems(1) by (simp add: monitor_tick_keys)
  have l: "i < length ?strs'"
    using Cons.prems(2) monitor_tick_keys [of env strs] by (metis length_map)
  from Cons.IH [OF d l] same Cons.prems(3) quiet
  show ?case by (simp add: monitor_streams_Cons del: monitor_streams.simps(2))
qed

lemma monitor_one_max_restarts:
  "max_restarts (fst (monitor_one env nm proc)) = max_restarts proc"
  by (simp add: monitor_one_def start_keeps_fields)

lemma monitor_tick_max_restarts:
  "\<forall>(nm, proc) \<in> set strs. max_restarts proc = m \<Longrightarrow>
     \<forall>(nm, proc) \<in> set (fst (monitor_tick env strs)). max_restarts proc = m"
  by (auto simp add: monitor_tick_map monitor_one_max_restarts)

lemma monitor_streams_max_restarts:
  "\<forall>(nm, proc) \<in> set strs. max_restarts proc = m \<Longrightarrow>
     \<forall>(nm, proc) \<in> set (fst (monitor_streams envs strs)). max_restarts proc = m"
proof (induction envs arbitrary: strs)
  case Nil
  then show ?case by simp
next
  case (Cons env envs)
  from Cons.IH [OF monitor_tick_max_restarts [OF Cons.prems, of env]]
  show ?case by (simp add: monitor_streams_Cons del: monitor_streams.simps(2))
qed

lemma start_all_streams_initial:
  "\<forall>(nm, proc) \<in> set (fst (start_all_streams upper spawn srv entries)).
     restart_count proc \<le> max_restarts proc \<and> max_restarts proc = 5"
  unfolding start_all_streams_def
  by (rule start_all_loop_invariant)
     (simp_all add: start_keeps_fields ffmpeg_process_init_def)

text \<open>
  C2. For every stream that is tracked after \<open>start_all_streams\<close>, and after any number of
  passes of the monitor under any answers of the operating system, the restart count is at
  most \<open>max_restarts\<close>, which is 5. Once the count has reached \<open>max_restarts\<close>, no further
  pass changes the process object of the stream or calls \<open>start()\<close> on it, while every
  pass still handles each tracked stream, applying the step of the loop body to it.
\<close>

theorem restart_count_bounded:
  "strs = fst (monitor_streams envs (fst (start_all_streams upper spawn srv entries)))
     \<and> i < length strs \<longrightarrow>
     restart_count (snd (strs ! i)) \<le> max_restarts (snd (strs ! i))
   \<and> max_restarts (snd (strs ! i)) = 5
   \<and> (restart_count (snd (strs ! i)) = max_restarts (snd (strs ! i)) \<longrightarrow>
        (\<forall>envs'. map fst (fst (monitor_streams envs' strs)) = map fst strs
                \<and> fst (monitor_streams envs' strs) ! i = strs ! i
                \<and> StartCall (fst (strs ! i)) \<notin> set (snd (monitor_streams envs' strs))))
   \<and> (\<forall>env j. j < length strs \<longrightarrow>
          fst (monitor_tick env strs) ! j =
            (fst (strs ! j),
             fst (monitor_one (env (fst (strs ! j))) (fst (strs ! j)) (snd (strs ! j)))))"
proof (intro impI, elim conjE)
  let ?strs0 = "fst (start_all_streams upper spawn srv entries)"
  assume strs: "strs = fst (monitor_streams envs ?strs0)" and i: "i < length strs"
  have "distinct (map fst ?strs0)"
    using start_all_loop_distinct [of "[]" upper spawn srv 0 entries]
    by (simp add: start_all_streams_def)
  then have dist: "distinct (map fst strs)"
    by (simp add: strs monitor_streams_keys)
  from start_all_streams_initial [of upper spawn srv entries]
  have init_le: "\<forall>(nm, proc) \<in> set ?strs0. restart_count proc \<le> max_restarts proc"
    and init_max: "\<forall>(nm, proc) \<in> set ?strs0. max_restarts proc = 5" by auto
  have "\<forall>(nm, proc) \<in> set strs. restart_count proc \<le> max_restarts proc"
    unfolding strs by (rule monitor_streams_bounded [OF init_le])
  moreover have "\<forall>(nm, proc) \<in> set strs. max_restarts proc = 5"
    unfolding strs by (rule monitor_streams_max_restarts [OF init_max])
  moreover from i have "(fst (strs ! i), snd (strs ! i)) \<in> set strs" by simp
  ultimately have bound: "restart_count (snd (strs ! i)) \<le> max_restarts (snd (strs ! i))"
    and five: "max_restarts (snd (strs ! i)) = 5" by blast+
  have parked: "map fst (fst (monitor_streams envs' strs)) = map fst strs
                \<and> fst (monitor_streams envs' strs) ! i = strs ! i
                \<and> StartCall (fst (strs ! i)) \<notin> set (snd (monitor_streams envs' strs))"
    if "restart_count (snd (strs ! i)) = max_restarts (snd (strs ! i))" for envs'
    using monitor_streams_exhausted [OF dist i, of envs'] that
    by (simp add: monitor_streams_keys)
  from bound five parked show "restart_count (snd (strs ! i)) \<le> max_restarts (snd (strs ! i))
   \<and> max_restarts (snd (strs ! i)) = 5
   \<and> (restart_count (snd (strs ! i)) = max_restarts (snd (strs ! i)) \<longrightarrow>
        (\<forall>envs'. map fst (fst (monitor_streams envs' strs)) = map fst strs
                \<and> fst (monitor_streams envs' strs) ! i = strs ! i
                \<and> StartCall (fst (strs ! i)) \<notin> set (snd (monitor_streams envs' strs))))
   \<and> (\<forall>env j. j < length strs \<longrightarrow>
          fst (monitor_tick env strs) ! j =
            (fst (strs ! j),
             fst (monitor_one (env (fst (strs ! j))) (fst (strs ! j)) (snd (strs ! j)))))"
    by (simp add: monitor_tick_nth)
qed

theorem restart_count_bounded_witness:
  "fst (monitor_streams six_dead_ticks
          (fst (start_all_streams ascii_upper always_spawns server [cam1_entry]))) =
     [(''cam1'', (running_process cam1_config 40)\<lparr>restart_count := 5\<rparr>)]
   \<and> restart_count (snd (fst (monitor_streams six_dead_ticks
          (fst (start_all_streams ascii_upper always_spawns server [cam1_entry]))) ! 0)) = 5
   \<and> max_restarts (snd (fst (monitor_streams six_dead_ticks
          (fst (start_all_streams ascii_upper always_spawns server [cam1_entry]))) ! 0)) = 5
   \<and> fst (monitor_streams [dead_no_ffmpeg, dead_no_ffmpeg]
          (fst (monitor_streams six_dead_ticks
             (fst (start_all_streams ascii_upper always_spawns server [cam1_entry]))))) ! 0 =
       (''cam1'', (running_process cam1_config 40)\<lparr>restart_count := 5\<rparr>)
   \<and> StartCall ''cam1'' \<notin> set (snd (monitor_streams [dead_no_ffmpeg, dead_no_ffmpeg]
          (fst (monitor_streams six_dead_ticks
             (fst (start_all_streams ascii_upper always_spawns server [cam1_entry]))))))"
  using restart_count_bounded
          [of "fst (monitor_streams six_dead_ticks
                 (fst (start_all_streams ascii_upper always_spawns server [cam1_entry])))"
              six_dead_ticks ascii_upper always_spawns server "[cam1_entry]" 0]
  by (simp add: six_dead_ticks_def dead_no_ffmpeg_def always_spawns_def server_def
        cam1_entry_def cam1_config_def running_process_def popen_fails_def popen_ok_def
        make_stream_config_def ascii_upper_def ascii_upper_char_def stream_type_getitem_def
        start_all_streams_def start_def build_command_def type_args_def
        ffmpeg_process_init_def monitor_one_def is_alive_def)

text \<open>
  C4. One pass of the monitor over a tracking dictionary, for the stream \<open>nm\<close> at any
  position: if the stream is not alive and its restart count is below \<open>max_restarts\<close>, the
  pass increments the count by exactly one and then calls \<open>start()\<close> once, and the count
  stays incremented whether that \<open>start()\<close> succeeds or fails; if the stream is alive, the
  pass leaves its process object, and so its restart count, unchanged and does not call
  \<open>start()\<close>.
\<close>

theorem monitor_tick_transition:
  "distinct (map fst strs) \<and> i < length strs \<and> strs ! i = (nm, proc) \<longrightarrow>
     fst (fst (monitor_tick env strs) ! i) = nm
   \<and> (\<not> is_alive (tick_running (env nm)) proc \<and> restart_count proc < max_restarts proc \<longrightarrow>
        snd (fst (monitor_tick env strs) ! i) =
          fst (start (tick_popen (env nm)) (proc\<lparr>restart_count := restart_count proc + 1\<rparr>))
        \<and> restart_count (snd (fst (monitor_tick env strs) ! i)) = restart_count proc + 1
        \<and> count_list (snd (monitor_tick env strs)) (StartCall nm) = 1)
   \<and> (is_alive (tick_running (env nm)) proc \<longrightarrow>
        snd (fst (monitor_tick env strs) ! i) = proc
        \<and> restart_count (snd (fst (monitor_tick env strs) ! i)) = restart_count proc
        \<and> StartCall nm \<notin> set (snd (monitor_tick env strs)))"
proof (intro impI, elim conjE)
  assume dist: "distinct (map fst strs)" and i: "i < length strs" and at: "strs ! i = (nm, proc)"
  from i at have mem: "(nm, proc) \<in> set strs" by (metis nth_mem)
  have nth: "fst (monitor_tick env strs) ! i = (nm, fst (monitor_one (env nm) nm proc))"
    using monitor_tick_nth [OF i, of env] at by simp
  have cnt: "count_list (snd (monitor_tick env strs)) (StartCall nm) =
               count_list (snd (monitor_one (env nm) nm proc)) (StartCall nm)"
    by (rule monitor_tick_count_StartCall [OF dist mem])
  show "fst (fst (monitor_tick env strs) ! i) = nm
   \<and> (\<not> is_alive (tick_running (env nm)) proc \<and> restart_count proc < max_restarts proc \<longrightarrow>
        snd (fst (monitor_tick env strs) ! i) =
          fst (start (tick_popen (env nm)) (proc\<lparr>restart_count := restart_count proc + 1\<rparr>))
        \<and> restart_count (snd (fst (monitor_tick env strs) ! i)) = restart_count proc + 1
        \<and> count_list (snd (monitor_tick env strs)) (StartCall nm) = 1)
   \<and> (is_alive (tick_running (env nm)) proc \<longrightarrow>
        snd (fst (monitor_tick env strs) ! i) = proc
        \<and> restart_count (snd (fst (monitor_tick env strs) ! i)) = restart_count proc
        \<and> StartCall nm \<notin> set (snd (monitor_tick env strs)))"
    unfolding nth count_list_0_iff [symmetric] cnt
    by (simp add: monitor_one_def start_keeps_fields)
qed

theorem monitor_tick_transition_witness:
  "monitor_tick cam1_dead_cam2_alive two_running =
     ([(''cam1'', (running_process cam1_config 43)\<lparr>restart_count := 1\<rparr>),
       (''cam2'', running_process cam2_config 8)],
      [DiedWarning ''cam1'', StartCall ''cam1''])
   \<and> count_list (snd (monitor_tick cam1_dead_cam2_alive two_running)) (StartCall ''cam1'') = 1
   \<and> StartCall ''cam2'' \<notin> set (snd (monitor_tick cam1_dead_cam2_alive two_running))"
  using monitor_tick_transition
          [of two_running 0 "''cam1''" "running_process cam1_config 7" cam1_dead_cam2_alive]
        monitor_tick_transition
          [of two_running 1 "''cam2''" "running_process cam2_config 8" cam1_dead_cam2_alive]
  by (simp add: two_running_def cam1_dead_cam2_alive_def running_process_def
        cam1_config_def cam2_config_def popen_ok_def server_def monitor_one_def is_alive_def
        start_def build_command_def type_args_def ffmpeg_process_init_def)

section \<open>Shutdown\<close>

lemma stop_returns_iff:
  "snd (stop env self) = None \<longleftrightarrow>
     (process self = None \<or> terminate_result env = None
        \<and> (wait_result env = None
            \<or> wait_result env = Some TimeoutExpired \<and> kill_result env = None))"
  by (auto simp add: stop_def split: option.splits if_splits)

lemma stop_returns_state:
  "snd (stop env self) = None \<Longrightarrow> fst (stop env self) = self\<lparr>process := None\<rparr>"
  by (auto simp add: stop_def split: option.splits if_splits)

lemma stop_raises_state:
  "snd (stop env self) = Some e \<Longrightarrow> fst (stop env self) = self"
  by (auto simp add: stop_def split: option.splits if_splits)

lemma cleanup_Cons_returns:
  "snd (stop (env nm) proc) = None \<Longrightarrow>
     cleanup env ((nm, proc) # rest) =
       ((nm, proc\<lparr>process := None\<rparr>) # fst (cleanup env rest),
        StopCall nm # fst (snd (cleanup env rest)), snd (snd (cleanup env rest)))"
  using stop_returns_state [of "env nm" proc]
  by (cases "stop (env nm) proc") (simp split: prod.split)

lemma cleanup_Cons_raises:
  "snd (stop (env nm) proc) = Some e \<Longrightarrow>
     cleanup env ((nm, proc) # rest) = ((nm, proc) # rest, [StopCall nm], Some e)"
  using stop_raises_state [of "env nm" proc e]
  by (cases "stop (env nm) proc") simp

lemma cleanup_all_return:
  "\<forall>(nm, proc) \<in> set strs. snd (stop (env nm) proc) = None \<Longrightarrow>
     cleanup env strs =
       (map (\<lambda>(nm, proc). (nm, proc\<lparr>process := None\<rparr>)) strs,
        map (\<lambda>(nm, proc). StopCall nm) strs, None)"
proof (induction strs)
  case Nil
  then show ?case by simp
next
  case (Cons a strs)
  obtain nm proc where a: "a = (nm, proc)" by (cases a)
  with Cons.prems have "snd (stop (env nm) proc) = None"
    and "\<forall>(nm, proc) \<in> set strs. snd (stop (env nm) proc) = None" by auto
  with Cons.IH a show ?case
    by (simp add: cleanup_Cons_returns del: cleanup.simps)
qed

lemma cleanup_first_raise:
  "i < length strs \<Longrightarrow>
   \<forall>j<i. snd (stop (env (fst (strs ! j))) (snd (strs ! j))) = None \<Longrightarrow>
   snd (stop (env (fst (strs ! i))) (snd (strs ! i))) = Some e \<Longrightarrow>
     cleanup env strs =
       (map (\<lambda>(nm, proc). (nm, proc\<lparr>process := None\<rparr>)) (take i strs) @ drop i strs,
        map (\<lambda>(nm, proc). StopCall nm) (take (Suc i) strs), Some e)"
proof (induction strs arbitrary: i)
  case Nil
  then show ?case by simp
next
  case (Cons a strs)
  obtain nm proc where a: "a = (nm, proc)" by (cases a)
  show ?case
  proof (cases i)
    case 0
    with Cons.prems a show ?thesis
      by (simp add: cleanup_Cons_raises del: cleanup.simps)
  next
    case (Suc i')
    from Cons.prems(2) Suc a have first: "snd (stop (env nm) proc) = None" by auto
    from Cons.prems Suc have "i' < length strs"
      and "\<forall>j<i'. snd (stop (env (fst (strs ! j))) (snd (strs ! j))) = None"
      and "snd (stop (env (fst (strs ! i'))) (snd (strs ! i'))) = Some e" by auto
    from Cons.IH [OF this] first a Suc show ?thesis
      by (simp add: cleanup_Cons_returns del: cleanup.simps)
  qed
qed

text \<open>
  C3, as stated: an error raised while one stream is stopped does not keep \<open>cleanup()\<close>
  from calling \<open>stop()\<close> on the remaining streams, and the process then exits with status
  0. This fails: with two running streams, when \<open>terminate()\<close> raises for the first one,
  \<open>stop()\<close> is never called on the second and the handler ends with that exception instead
  of \<open>sys.exit(0)\<close>.
\<close>

theorem cleanup_aborts_on_raise:
  "signal_handler first_signal_fails two_running =
     (two_running, [StopCall ''cam1''], Raised (OSError ''Operation not permitted''))
   \<and> StopCall ''cam2'' \<notin> set (fst (snd (signal_handler first_signal_fails two_running)))
   \<and> snd (snd (signal_handler first_signal_fails two_running)) \<noteq> SystemExit 0"
  by (simp add: signal_handler_def two_running_def first_signal_fails_def signal_fails_def
        stop_def running_process_def)

text \<open>
  C3, amended. On a shutdown signal \<open>cleanup()\<close> calls \<open>stop()\<close> on the tracked process
  objects in the order of the dictionary. When no \<open>stop()\<close> raises, that is when for each
  stream with a process reference \<open>terminate()\<close> returns and the child exits in time or
  is killed after the timeout, \<open>stop()\<close> is called on every stream, every reference is
  cleared and the handler ends with \<open>sys.exit(0)\<close>; a timeout on one stream does not
  prevent the calls on the others. When a \<open>stop()\<close> raises, \<open>stop()\<close> has been called
  on the streams up to that one only, the later streams are untouched, and the handler ends
  with the exception instead of \<open>sys.exit(0)\<close>.
\<close>

theorem cleanup_stops_until_raise:
  "((\<forall>(nm, proc) \<in> set strs.
        process proc = None
        \<or> terminate_result (env nm) = None
          \<and> (wait_result (env nm) = None
              \<or> wait_result (env nm) = Some TimeoutExpired \<and> kill_result (env nm) = None)) \<longrightarrow>
      signal_handler env strs =
        (map (\<lambda>(nm, proc). (nm, proc\<lparr>process := None\<rparr>)) strs,
         map (\<lambda>(nm, proc). StopCall nm) strs, SystemExit 0))
   \<and> (i < length strs
        \<and> (\<forall>j<i. snd (stop (env (fst (strs ! j))) (snd (strs ! j))) = None)
        \<and> snd (stop (env (fst (strs ! i))) (snd (strs ! i))) = Some e \<longrightarrow>
      signal_handler env strs =
        (map (\<lambda>(nm, proc). (nm, proc\<lparr>process := None\<rparr>)) (take i strs) @ drop i strs,
         map (\<lambda>(nm, proc). StopCall nm) (take (Suc i) strs), Raised e))"
proof (intro conjI impI)
  assume "\<forall>(nm, proc) \<in> set strs.
        process proc = None
        \<or> terminate_result (env nm) = None
          \<and> (wait_result (env nm) = None
              \<or> wait_result (env nm) = Some TimeoutExpired \<and> kill_result (env nm) = None)"
  then have "\<forall>(nm, proc) \<in> set strs. snd (stop (env nm) proc) = None"
    by (simp add: stop_returns_iff)
  from cleanup_all_return [OF this] show "signal_handler env strs =
        (map (\<lambda>(nm, proc). (nm, proc\<lparr>process := None\<rparr>)) strs,
         map (\<lambda>(nm, proc). StopCall nm) strs, SystemExit 0)"
    by (simp add: signal_handler_def)
next
  assume "i < length strs
        \<and> (\<forall>j<i. snd (stop (env (fst (strs ! j))) (snd (strs ! j))) = None)
        \<and> snd (stop (env (fst (strs ! i))) (snd (strs ! i))) = Some e"
  then have "cleanup env strs =
       (map (\<lambda>(nm, proc). (nm, proc\<lparr>process := None\<rparr>)) (take i strs) @ drop i strs,
        map (\<lambda>(nm, proc). StopCall nm) (take (Suc i) strs), Some e)"
    by (intro cleanup_first_raise) simp_all
  then show "signal_handler env strs =
        (map (\<lambda>(nm, proc). (nm, proc\<lparr>process := None\<rparr>)) (take i strs) @ drop i strs,
         map (\<lambda>(nm, proc). StopCall nm) (take (Suc i) strs), Raised e)"
    by (simp add: signal_handler_def)
qed

theorem cleanup_stops_until_raise_witness:
  "signal_handler first_needs_kill two_running =
     ([(''cam1'', ffmpeg_process_init cam1_config server),
       (''cam2'', ffmpeg_process_init cam2_config server)],
      [StopCall ''cam1'', StopCall ''cam2''], SystemExit 0)
   \<and> signal_handler second_signal_fails two_running =
     ([(''cam1'', ffmpeg_process_init cam1_config server),
       (''cam2'', running_process cam2_config 8)],
      [StopCall ''cam1'', StopCall ''cam2''], Raised (OSError ''Operation not permitted''))"
  using cleanup_stops_until_raise [of two_running first_needs_kill 0 TimeoutExpired]
        cleanup_stops_until_raise
          [of two_running second_signal_fails 1 "OSError ''Operation not permitted''"]
  by (simp add: two_running_def first_needs_kill_def second_signal_fails_def needs_kill_def
        exits_in_time_def signal_fails_def running_process_def signal_handler_def stop_def
        ffmpeg_process_init_def)

end
